theory Spec2Isabelle
  imports Main "HOL-Library.AList"
begin

section \<open>JavaScript values, objects, errors and the logger\<close>

text \<open>
  The primitive values that occur in the objects the code builds and inspects.
  A date is kept as its epoch time.
\<close>

datatype js_value = JBool bool | JString string | JNumber int | JNull | JDate int

text \<open>
  An object is its list of own properties in insertion order; reading a property that is
  not there gives \<open>None\<close> (JavaScript's \<open>undefined\<close>).
\<close>

type_synonym js_object = "(string \<times> js_value) list"

definition get_prop :: "js_object \<Rightarrow> string \<Rightarrow> js_value option" where
  "get_prop obj k = map_of obj k"

text \<open>Truthiness, as \<open>if (v)\<close>, \<open>!v\<close> and \<open>a && b\<close> test it.\<close>

fun truthy :: "js_value option \<Rightarrow> bool" where
  "truthy None = False"
| "truthy (Some (JBool b)) = b"
| "truthy (Some (JString s)) = (s \<noteq> [])"
| "truthy (Some (JNumber n)) = (n \<noteq> 0)"
| "truthy (Some JNull) = False"
| "truthy (Some (JDate t)) = True"

text \<open>
  Object spread \<open>{ ...a, ...b }\<close>: the properties of \<open>a\<close>, then those of \<open>b\<close> written
  over them from left to right. A key already present keeps its place and takes the new
  value; a new key is appended.
\<close>

definition spread :: "js_object \<Rightarrow> js_object \<Rightarrow> js_object" where
  "spread a b = fold (\<lambda>(k, v) acc. AList.update k v acc) b a"

text \<open>\<open>delete obj.k\<close>.\<close>

definition delete_prop :: "string \<Rightarrow> js_object \<Rightarrow> js_object" where
  "delete_prop k obj = AList.delete k obj"

text \<open>
  A thrown value is an error object with a name and a message; \<open>new Error(m)\<close> has the
  name \<open>Error\<close>. A function that may throw returns \<open>js_error + 'a\<close>, \<open>Inl\<close> the thrown
  error.
\<close>

datatype js_error = JsError (err_name: string) (err_message: string)

definition new_Error :: "string \<Rightarrow> js_error" where
  "new_Error m = JsError ''Error'' m"

text \<open>\<open>`${e}`\<close> of an error object (\<open>Error.prototype.toString\<close>).\<close>

definition error_to_string :: "js_error \<Rightarrow> string" where
  "error_to_string e =
     (if err_name e = [] then err_message e
      else if err_message e = [] then err_name e
      else err_name e @ '': '' @ err_message e)"

text \<open>
  The logger is a collaborator that only records: a call appends one entry, the message
  and, for \<open>logger.error(msg, err)\<close>, the error object passed with it.
\<close>

datatype log_entry = LogInfo string | LogError string "js_error option"

section \<open>The process environment\<close>

record process_env =
  NODE_ENV :: "string option"
  JWT_SECRET_var :: "string option"
  JWT_EXPIRY_var :: "string option"

text \<open>\<open>process.env.X || d\<close>: the default replaces an unset or empty variable.\<close>

definition or_default :: "string option \<Rightarrow> string \<Rightarrow> string" where
  "or_default v d = (case v of None \<Rightarrow> d | Some s \<Rightarrow> if s = [] then d else s)"

section \<open>Cookies\<close>

text \<open>
  What a handler has done to the response through the cookie helpers: the calls of
  \<open>res.cookie\<close> and \<open>res.clearCookie\<close> with their arguments, in order.
\<close>

datatype res_call =
    Cookie string string js_object
  | ClearCookie string js_object

definition cookies_getOptions :: "process_env \<Rightarrow> js_object" where
  "cookies_getOptions env =
     [(''httpOnly'', JBool True),
      (''secure'', JBool (NODE_ENV env = Some ''production'')),
      (''sameSite'', JString ''strict''),
      (''maxAge'', JNumber (1000 * 60 * 15))]"

text \<open>
  The parameter \<open>options = {}\<close>: \<open>None\<close> is the omitted argument, replaced by the empty
  object.
\<close>

definition default_options :: "js_object option \<Rightarrow> js_object" where
  "default_options options = (case options of None \<Rightarrow> [] | Some obj \<Rightarrow> obj)"

definition cookies_set ::
  "process_env \<Rightarrow> res_call list \<Rightarrow> string \<Rightarrow> string \<Rightarrow> js_object option \<Rightarrow> res_call list" where
  "cookies_set env res name val options =
     res @ [Cookie name val (spread (default_options options) (cookies_getOptions env))]"

definition cookies_getCookie :: "js_object \<Rightarrow> string \<Rightarrow> js_value option" where
  "cookies_getCookie req_cookies name = get_prop req_cookies name"

definition cookies_clear :: "process_env \<Rightarrow> res_call list \<Rightarrow> string \<Rightarrow> js_object option \<Rightarrow> res_call list" where
  "cookies_clear env res name options =
     res @ [ClearCookie name (spread (default_options options) (cookies_getOptions env))]"

text \<open>The attributes the last cookie call was made with.\<close>

fun call_options :: "res_call \<Rightarrow> js_object" where
  "call_options (Cookie name val opts) = opts"
| "call_options (ClearCookie name opts) = opts"

section \<open>The token codec (utils/jwt.js)\<close>

text \<open>
  \<open>jsonwebtoken\<close> is a third-party library: its two entry points are taken as
  parameters. \<open>jwt_sign payload secret expiresIn\<close> gives the token or throws;
  \<open>jwt_verify token secret\<close> gives the decoded payload or throws (a bad signature, a
  malformed token, an expired token).
\<close>

record jsonwebtoken =
  jwt_sign :: "js_object \<Rightarrow> string \<Rightarrow> string \<Rightarrow> js_error + string"
  jwt_verify :: "string \<Rightarrow> string \<Rightarrow> js_error + js_object"

definition JWT_SECRET :: "process_env \<Rightarrow> string" where
  "JWT_SECRET env = or_default (JWT_SECRET_var env) ''jwt_secret''"

definition JWT_EXPIRY :: "process_env \<Rightarrow> string" where
  "JWT_EXPIRY env = or_default (JWT_EXPIRY_var env) ''1d''"

text \<open>Both wrappers take the log so far and return it with what they logged.\<close>

definition jwtToken_sign ::
  "jsonwebtoken \<Rightarrow> process_env \<Rightarrow> js_object \<Rightarrow> log_entry list
     \<Rightarrow> (js_error + string) \<times> log_entry list" where
  "jwtToken_sign lib env payload lg =
     (case jwt_sign lib payload (JWT_SECRET env) (JWT_EXPIRY env) of
        Inr token \<Rightarrow> (Inr token, lg)
      | Inl error \<Rightarrow>
          (Inl (new_Error ''Failed to authenticate token''),
           lg @ [LogError ''Failed to authenticate token'' (Some error)]))"

definition jwtToken_verify ::
  "jsonwebtoken \<Rightarrow> process_env \<Rightarrow> string \<Rightarrow> log_entry list
     \<Rightarrow> (js_error + js_object) \<times> log_entry list" where
  "jwtToken_verify lib env token lg =
     (case jwt_verify lib token (JWT_SECRET env) of
        Inr claims \<Rightarrow> (Inr claims, lg)
      | Inl error \<Rightarrow>
          (Inl (new_Error ''Failed to verify token''),
           lg @ [LogError ''Failed to verify token'' (Some error)]))"

section \<open>The users table and the world a request runs in\<close>

text \<open>A row of the \<open>users\<close> table, with the columns the code reads and writes.\<close>

record user_row =
  row_id :: int
  row_name :: string
  row_email :: string
  row_password :: string
  row_role :: string
  row_created_at :: int
  row_updated_at :: int

text \<open>The values of \<open>db.insert(users).values({ name, email, password, role })\<close>.\<close>

record user_values =
  val_name :: string
  val_email :: string
  val_password :: string
  val_role :: "string option"

text \<open>
  The database is reached through the query builder, a third-party library over a
  remote server. The three queries the code issues are parameters over a database state
  \<open>'db\<close>; each may throw:
  \<^item> \<open>select_by_email\<close>: \<open>db.select().from(users).where(eq(users.email, v)).limit(1)\<close>;
  \<^item> \<open>insert_returning\<close>: \<open>db.insert(users).values(vals).returning(...)\<close>, the rows
    inserted and the new state;
  \<^item> \<open>update_returning\<close>: \<open>db.update(users).set(data).where(eq(users.id, i)).returning(...)\<close>,
    the rows updated and the new state.
  The projection of \<open>returning\<close> is applied by the model of the calling function.
\<close>

record 'db queries =
  select_by_email :: "'db \<Rightarrow> js_value \<Rightarrow> js_error + user_row list"
  insert_returning :: "'db \<Rightarrow> user_values \<Rightarrow> js_error + user_row list \<times> 'db"
  update_returning :: "'db \<Rightarrow> int \<Rightarrow> js_object \<Rightarrow> js_error + user_row list \<times> 'db"

text \<open>
  The state around a call: the log written so far, the database, and the clock that
  \<open>new Date()\<close> reads.
\<close>

record 'db world =
  logs :: "log_entry list"
  db :: 'db
  now :: int

definition log_info :: "string \<Rightarrow> 'db world \<Rightarrow> 'db world" where
  "log_info m w = w\<lparr>logs := logs w @ [LogInfo m]\<rparr>"

definition log_error :: "string \<Rightarrow> js_error option \<Rightarrow> 'db world \<Rightarrow> 'db world" where
  "log_error m e w = w\<lparr>logs := logs w @ [LogError m e]\<rparr>"

section \<open>The credential verifier (auth services)\<close>

text \<open>\<open>bcrypt\<close> is a third-party library; \<open>hash\<close> and \<open>compare\<close> are parameters.\<close>

record bcrypt =
  bcrypt_hash :: "string \<Rightarrow> nat \<Rightarrow> js_error + string"
  bcrypt_compare :: "string \<Rightarrow> string \<Rightarrow> js_error + bool"

definition hashPassword ::
  "bcrypt \<Rightarrow> string \<Rightarrow> 'db world \<Rightarrow> (js_error + string) \<times> 'db world" where
  "hashPassword B password w =
     (case bcrypt_hash B password 10 of
        Inr h \<Rightarrow> (Inr h, w)
      | Inl error \<Rightarrow>
          (Inl (new_Error ''Error hashing password''),
           log_error ''Error hashing password'' (Some error) w))"

definition comparePassword ::
  "bcrypt \<Rightarrow> string \<Rightarrow> string \<Rightarrow> 'db world \<Rightarrow> (js_error + bool) \<times> 'db world" where
  "comparePassword B password hashedPassword w =
     (case bcrypt_compare B password hashedPassword of
        Inr b \<Rightarrow> (Inr b, w)
      | Inl e \<Rightarrow>
          (Inl (new_Error ''Error comparing password''),
           log_error (''Error comparing password: '' @ error_to_string e) None w))"

text \<open>
  The object \<open>createUser\<close> and \<open>authenticateUser\<close> return: the columns named in
  \<open>returning\<close>, without the password.
\<close>

record identity =
  ident_id :: int
  ident_name :: string
  ident_email :: string
  ident_role :: string
  ident_created_at :: int

definition identity_of_row :: "user_row \<Rightarrow> identity" where
  "identity_of_row r =
     \<lparr>ident_id = row_id r, ident_name = row_name r, ident_email = row_email r,
      ident_role = row_role r, ident_created_at = row_created_at r\<rparr>"

text \<open>The argument \<open>{ name, email, password, role }\<close> of \<open>createUser\<close>.\<close>

record signup =
  su_name :: string
  su_email :: string
  su_password :: string
  su_role :: "string option"

text \<open>
  The \<open>try\<close> block of \<open>createUser\<close>. \<open>const [newUser] = rows\<close> takes the first row, or
  \<open>undefined\<close> (\<open>None\<close>) when there is none.
\<close>

definition createUser_try ::
  "'db queries \<Rightarrow> bcrypt \<Rightarrow> signup \<Rightarrow> 'db world \<Rightarrow> (js_error + identity option) \<times> 'db world" where
  "createUser_try Q B inp w =
     (case select_by_email Q (db w) (JString (su_email inp)) of
        Inl e \<Rightarrow> (Inl e, w)
      | Inr existingUser \<Rightarrow>
          if length existingUser > 0 then (Inl (new_Error ''User already exists''), w)
          else
            (case hashPassword B (su_password inp) w of
               (Inl e, w1) \<Rightarrow> (Inl e, w1)
             | (Inr hashedPassword, w1) \<Rightarrow>
                 (case insert_returning Q (db w1)
                         \<lparr>val_name = su_name inp, val_email = su_email inp,
                          val_password = hashedPassword, val_role = su_role inp\<rparr> of
                    Inl e \<Rightarrow> (Inl e, w1)
                  | Inr (rows, db') \<Rightarrow>
                      (Inr (case rows of [] \<Rightarrow> None | newUser # _ \<Rightarrow> Some (identity_of_row newUser)),
                       log_info (''User '' @ su_email inp @ '' created successfully'')
                         (w1\<lparr>db := db'\<rparr>)))))"

text \<open>\<open>createUser\<close>: the \<open>catch\<close> logs whatever was thrown and throws a new error.\<close>

definition createUser ::
  "'db queries \<Rightarrow> bcrypt \<Rightarrow> signup \<Rightarrow> 'db world \<Rightarrow> (js_error + identity option) \<times> 'db world" where
  "createUser Q B inp w =
     (case createUser_try Q B inp w of
        (Inr newUser, w') \<Rightarrow> (Inr newUser, w')
      | (Inl error, w') \<Rightarrow>
          (Inl (new_Error ''Error creating user''),
           log_error ''Error creating user'' (Some error) w'))"

text \<open>The argument \<open>{ email, password }\<close> of \<open>authenticateUser\<close>.\<close>

record signin =
  si_email :: string
  si_password :: string

definition authenticateUser_try ::
  "'db queries \<Rightarrow> bcrypt \<Rightarrow> signin \<Rightarrow> 'db world \<Rightarrow> (js_error + identity) \<times> 'db world" where
  "authenticateUser_try Q B inp w =
     (case select_by_email Q (db w) (JString (si_email inp)) of
        Inl e \<Rightarrow> (Inl e, w)
      | Inr [] \<Rightarrow> (Inl (new_Error ''User not found''), w)
      | Inr (existingUser # _) \<Rightarrow>
          (case comparePassword B (si_password inp) (row_password existingUser) w of
             (Inl e, w1) \<Rightarrow> (Inl e, w1)
           | (Inr isPasswordValid, w1) \<Rightarrow>
               if \<not> isPasswordValid then (Inl (new_Error ''Invalid password''), w1)
               else
                 (Inr (identity_of_row existingUser),
                  log_info (''User '' @ row_email existingUser @ '' authenticated successfully'')
                    w1)))"

definition authenticateUser ::
  "'db queries \<Rightarrow> bcrypt \<Rightarrow> signin \<Rightarrow> 'db world \<Rightarrow> (js_error + identity) \<times> 'db world" where
  "authenticateUser Q B inp w =
     (case authenticateUser_try Q B inp w of
        (Inr user, w') \<Rightarrow> (Inr user, w')
      | (Inl error, w') \<Rightarrow>
          (Inl (new_Error ''Error authenticating user''),
           log_error (''Error authenticating user: '' @ error_to_string error) None w'))"

section \<open>The users controller\<close>

text \<open>The user object the services return and the handlers send back.\<close>

record user_view =
  view_id :: int
  view_email :: string
  view_name :: string
  view_role :: string
  view_created_at :: int
  view_updated_at :: int

definition view_of_row :: "user_row \<Rightarrow> user_view" where
  "view_of_row r =
     \<lparr>view_id = row_id r, view_email = row_email r, view_name = row_name r,
      view_role = row_role r, view_created_at = row_created_at r,
      view_updated_at = row_updated_at r\<rparr>"

text \<open>
  The modules the controller imports and that are not part of the sources at hand are
  parameters: the two validation schemas (\<open>safeParse\<close> gives the parsed data or the
  validation error), \<open>formatValidationError\<close>, and the services \<open>getUserById\<close> and
  \<open>deleteUser\<close>, which run in the world and may throw.
\<close>

type_synonym zod_error = "string list"

record 'db collaborators =
  userIdSchema :: "string \<Rightarrow> zod_error + int"
  updateUserSchema :: "js_object \<Rightarrow> zod_error + js_object"
  formatValidationError :: "zod_error \<Rightarrow> string"
  getUserById :: "int \<Rightarrow> 'db world \<Rightarrow> (js_error + user_view) \<times> 'db world"
  deleteUser :: "int \<Rightarrow> 'db world \<Rightarrow> (js_error + user_view) \<times> 'db world"

text \<open>
  The request as the handlers read it: \<open>req.params.id\<close>, \<open>req.body\<close> and \<open>req.user\<close>, the
  object an earlier middleware attached (\<open>None\<close> when it attached nothing).
\<close>

record request =
  req_params_id :: string
  req_body :: js_object
  req_user :: "js_object option"

text \<open>The JSON bodies the handlers send, by their keys.\<close>

datatype response_body =
    Body_error_details string string
  | Body_error_message string string
  | Body_error string
  | Body_message_user string user_view

text \<open>
  How a handler ends: it has sent a response with a status, or its promise rejects with
  an error, or it returns having sent nothing.
\<close>

datatype outcome = Responded nat response_body | Rejected js_error | No_response

text \<open>A number inside a template literal: its decimal digits.\<close>

fun digits_of_nat :: "nat \<Rightarrow> string" where
  "digits_of_nat n =
     (if n < 10 then [char_of (48 + n)]
      else digits_of_nat (n div 10) @ [char_of (48 + n mod 10)])"

definition number_to_string :: "int \<Rightarrow> string" where
  "number_to_string i =
     (if i < 0 then CHR ''-'' # digits_of_nat (nat (- i)) else digits_of_nat (nat i))"

definition fetchUserById_try ::
  "'db collaborators \<Rightarrow> request \<Rightarrow> 'db world \<Rightarrow> (js_error + outcome) \<times> 'db world" where
  "fetchUserById_try S req w =
     (let w1 = log_info (''Getting user by id: '' @ req_params_id req) w in
      case userIdSchema S (req_params_id req) of
        Inl verr \<Rightarrow>
          (Inr (Responded 400
                  (Body_error_details ''Validation failed'' (formatValidationError S verr))),
           w1)
      | Inr i \<Rightarrow>
          (case getUserById S i w1 of
             (Inl e, w2) \<Rightarrow> (Inl e, w2)
           | (Inr user, w2) \<Rightarrow>
               (Inr (Responded 200 (Body_message_user ''User retrieved successfully'' user)),
                log_info (''User '' @ view_email user @ '' retrieved successfully'') w2)))"

definition fetchUserById ::
  "'db collaborators \<Rightarrow> request \<Rightarrow> 'db world \<Rightarrow> outcome \<times> 'db world" where
  "fetchUserById S req w =
     (case fetchUserById_try S req w of
        (Inr out, w') \<Rightarrow> (out, w')
      | (Inl e, w') \<Rightarrow>
          (let w'' = log_error (''Error fetching user by id: '' @ err_message e) None w' in
           if err_message e = ''User not found''
           then (Responded 404 (Body_error ''User not found''), w'')
           else (No_response, w'')))"

text \<open>
  \<open>updateUser\<close>, the function the controller module itself exports. The second block is
  the code after the email check; \<open>updatedUser.email\<close> on an empty result is a
  \<open>TypeError\<close>.
\<close>

definition updateUser_write ::
  "'db queries \<Rightarrow> int \<Rightarrow> js_object \<Rightarrow> 'db world \<Rightarrow> (js_error + user_view) \<times> 'db world" where
  "updateUser_write Q i updates w =
     (let updateData = spread updates [(''updated_at'', JDate (now w))] in
      case update_returning Q (db w) i updateData of
        Inl e \<Rightarrow> (Inl e, w)
      | Inr ([], db') \<Rightarrow>
          (Inl (JsError ''TypeError''
                  ''Cannot read properties of undefined (reading 'email')''),
           w\<lparr>db := db'\<rparr>)
      | Inr (updatedUser # _, db') \<Rightarrow>
          (Inr (view_of_row updatedUser),
           log_info (''User '' @ row_email updatedUser @ '' updated successfully'')
             (w\<lparr>db := db'\<rparr>)))"

definition updateUser_try ::
  "'db collaborators \<Rightarrow> 'db queries \<Rightarrow> int \<Rightarrow> js_object \<Rightarrow> 'db world
     \<Rightarrow> (js_error + user_view) \<times> 'db world" where
  "updateUser_try S Q i updates w =
     (case getUserById S i w of
        (Inl e, w1) \<Rightarrow> (Inl e, w1)
      | (Inr existingUser, w1) \<Rightarrow>
          (case get_prop updates ''email'' of
             None \<Rightarrow> updateUser_write Q i updates w1
           | Some em \<Rightarrow>
               if truthy (Some em) \<and> em \<noteq> JString (view_email existingUser) then
                 (case select_by_email Q (db w1) em of
                    Inl e \<Rightarrow> (Inl e, w1)
                  | Inr [] \<Rightarrow> updateUser_write Q i updates w1
                  | Inr (emailExists # _) \<Rightarrow> (Inl (new_Error ''Email already exists''), w1))
               else updateUser_write Q i updates w1))"

definition updateUser ::
  "'db collaborators \<Rightarrow> 'db queries \<Rightarrow> int \<Rightarrow> js_object \<Rightarrow> 'db world
     \<Rightarrow> (js_error + user_view) \<times> 'db world" where
  "updateUser S Q i updates w =
     (case updateUser_try S Q i updates w of
        (Inr updatedUser, w') \<Rightarrow> (Inr updatedUser, w')
      | (Inl e, w') \<Rightarrow>
          (Inl e, log_error (''Error updating user '' @ number_to_string i @ '':'') (Some e) w'))"

text \<open>
  \<open>updateUserById\<close>, in three parts: the code after the ownership check (the role rule,
  the removal of \<open>role\<close>, the call of \<open>updateUser\<close> and the response), the \<open>try\<close> block
  up to and including the ownership check, and the \<open>catch\<close> block.
\<close>

definition updateUserById_after_ownership ::
  "'db collaborators \<Rightarrow> 'db queries \<Rightarrow> int \<Rightarrow> js_object \<Rightarrow> js_object \<Rightarrow> 'db world
     \<Rightarrow> (js_error + outcome) \<times> 'db world" where
  "updateUserById_after_ownership S Q i updates user w1 =
     (if truthy (get_prop updates ''role'')
         \<and> get_prop user ''role'' \<noteq> Some (JString ''admin'')
      then
        (Inr (Responded 403
                (Body_error_message ''Access denied''
                   ''Only administrators can change user roles'')),
         w1)
      else
        (let updates' =
               (if get_prop user ''role'' \<noteq> Some (JString ''admin'')
                then delete_prop ''role'' updates else updates)
         in case updateUser S Q i updates' w1 of
              (Inl e, w2) \<Rightarrow> (Inl e, w2)
            | (Inr updatedUser, w2) \<Rightarrow>
                (Inr (Responded 200
                        (Body_message_user ''User updated successfully'' updatedUser)),
                 log_info (''User '' @ view_email updatedUser @ '' updated successfully'')
                   w2)))"

definition updateUserById_try ::
  "'db collaborators \<Rightarrow> 'db queries \<Rightarrow> request \<Rightarrow> 'db world
     \<Rightarrow> (js_error + outcome) \<times> 'db world" where
  "updateUserById_try S Q req w =
     (let w1 = log_info (''Updating user: '' @ req_params_id req) w in
      case userIdSchema S (req_params_id req) of
        Inl verr \<Rightarrow>
          (Inr (Responded 400
                  (Body_error_details ''Validation failed'' (formatValidationError S verr))),
           w1)
      | Inr i \<Rightarrow>
          (case updateUserSchema S (req_body req) of
             Inl verr \<Rightarrow>
               (Inr (Responded 400
                       (Body_error_details ''Validation failed''
                          (formatValidationError S verr))),
                w1)
           | Inr updates \<Rightarrow>
               (case req_user req of
                  None \<Rightarrow>
                    (Inr (Responded 401
                            (Body_error_message ''Authentication required''
                               ''You must be logged in to update user information'')),
                     w1)
                | Some user \<Rightarrow>
                    if get_prop user ''role'' \<noteq> Some (JString ''admin'')
                       \<and> get_prop user ''id'' \<noteq> Some (JNumber i)
                    then
                      (Inr (Responded 403
                              (Body_error_message ''Access denied''
                                 ''You can only update your own information'')),
                       w1)
                    else updateUserById_after_ownership S Q i updates user w1)))"

definition updateUserById_catch ::
  "(js_error + outcome) \<times> 'db world \<Rightarrow> outcome \<times> 'db world" where
  "updateUserById_catch r =
     (case r of
        (Inr out, w') \<Rightarrow> (out, w')
      | (Inl e, w') \<Rightarrow>
          (let w'' = log_error (''Error updating user: '' @ err_message e) None w' in
           if err_message e = ''User not found''
           then (Responded 404 (Body_error ''User not found''), w'')
           else if err_message e = ''Email already exists''
           then (Responded 409 (Body_error ''Email already exists''), w'')
           else (Rejected (new_Error ''Error updating user''), w'')))"

definition updateUserById ::
  "'db collaborators \<Rightarrow> 'db queries \<Rightarrow> request \<Rightarrow> 'db world \<Rightarrow> outcome \<times> 'db world" where
  "updateUserById S Q req w = updateUserById_catch (updateUserById_try S Q req w)"

definition deleteUserById_try ::
  "'db collaborators \<Rightarrow> request \<Rightarrow> 'db world \<Rightarrow> (js_error + outcome) \<times> 'db world" where
  "deleteUserById_try S req w =
     (let w1 = log_info (''Deleting user: '' @ req_params_id req) w in
      case userIdSchema S (req_params_id req) of
        Inl verr \<Rightarrow>
          (Inr (Responded 400
                  (Body_error_details ''Validation failed'' (formatValidationError S verr))),
           w1)
      | Inr i \<Rightarrow>
          (case req_user req of
             None \<Rightarrow>
               (Inr (Responded 401
                       (Body_error_message ''Authentication required''
                          ''You must be logged in to delete users'')),
                w1)
           | Some user \<Rightarrow>
               if get_prop user ''role'' \<noteq> Some (JString ''admin'')
               then
                 (Inr (Responded 403
                         (Body_error_message ''Access denied''
                            ''Only administrators can delete users'')),
                  w1)
               else if get_prop user ''id'' = Some (JNumber i)
               then
                 (Inr (Responded 403
                         (Body_error_message ''Operation denied''
                            ''You cannot delete your own account'')),
                  w1)
               else
                 (case deleteUser S i w1 of
                    (Inl e, w2) \<Rightarrow> (Inl e, w2)
                  | (Inr deletedUser, w2) \<Rightarrow>
                      (Inr (Responded 200
                              (Body_message_user ''User deleted successfully'' deletedUser)),
                       log_info (''User '' @ view_email deletedUser @ '' deleted successfully'')
                         w2))))"

definition deleteUserById ::
  "'db collaborators \<Rightarrow> request \<Rightarrow> 'db world \<Rightarrow> outcome \<times> 'db world" where
  "deleteUserById S req w =
     (case deleteUserById_try S req w of
        (Inr out, w') \<Rightarrow> (out, w')
      | (Inl e, w') \<Rightarrow>
          (let w'' = log_error (''Error deleting user: '' @ err_message e) None w' in
           if err_message e = ''User not found''
           then (Responded 404 (Body_error ''User not found''), w'')
           else (Rejected (new_Error ''Error deleting user''), w'')))"

section \<open>A small instance to run the code on\<close>

text \<open>
  To evaluate the functions on concrete requests, the parameters are instantiated with
  a table held in memory. These stand-ins are not part of the program; the general
  theorems hold for every instance. The table is a list of rows; a lookup by email gives
  at most one row; an insert appends a row with the next id and the role \<open>user\<close> when
  none is given; an update rewrites the string columns named in the data.
\<close>

type_synonym mem_db = "user_row list"

definition mem_apply :: "js_object \<Rightarrow> user_row \<Rightarrow> user_row" where
  "mem_apply data r =
     r\<lparr>row_name := (case get_prop data ''name'' of Some (JString s) \<Rightarrow> s | _ \<Rightarrow> row_name r),
       row_email := (case get_prop data ''email'' of Some (JString s) \<Rightarrow> s | _ \<Rightarrow> row_email r),
       row_role := (case get_prop data ''role'' of Some (JString s) \<Rightarrow> s | _ \<Rightarrow> row_role r),
       row_updated_at :=
         (case get_prop data ''updated_at'' of Some (JDate t) \<Rightarrow> t | _ \<Rightarrow> row_updated_at r)\<rparr>"

definition mem_queries :: "mem_db queries" where
  "mem_queries =
     \<lparr>select_by_email = (\<lambda>t v. Inr (take 1 (filter (\<lambda>r. JString (row_email r) = v) t))),
      insert_returning =
        (\<lambda>t vals.
           let r = \<lparr>row_id = int (length t) + 1, row_name = val_name vals,
                    row_email = val_email vals, row_password = val_password vals,
                    row_role = (case val_role vals of None \<Rightarrow> ''user'' | Some x \<Rightarrow> x),
                    row_created_at = 0, row_updated_at = 0\<rparr>
           in Inr ([r], t @ [r])),
      update_returning =
        (\<lambda>t i data.
           let t' = map (\<lambda>r. if row_id r = i then mem_apply data r else r) t
           in Inr (filter (\<lambda>r. row_id r = i) t', t'))\<rparr>"

text \<open>A stand-in for the hash: a fixed prefix before the password.\<close>

definition toy_bcrypt :: bcrypt where
  "toy_bcrypt =
     \<lparr>bcrypt_hash = (\<lambda>p rounds. Inr (''$h$'' @ p)),
      bcrypt_compare = (\<lambda>p h. Inr (h = ''$h$'' @ p))\<rparr>"

text \<open>A hash that throws, as the library does on an argument it cannot hash.\<close>

definition failing_bcrypt :: bcrypt where
  "failing_bcrypt =
     \<lparr>bcrypt_hash = (\<lambda>p rounds. Inl (new_Error ''data and salt arguments required'')),
      bcrypt_compare = (\<lambda>p h. Inl (new_Error ''data and hash arguments required''))\<rparr>"

text \<open>
  A stand-in for the token library at one instant: it knows one good token and throws
  the library's three kinds of error for three others.
\<close>

definition toy_jwt :: jsonwebtoken where
  "toy_jwt =
     \<lparr>jwt_sign = (\<lambda>payload secret expiry. Inr ''good''),
      jwt_verify =
        (\<lambda>token secret.
           if token = ''good'' then Inr [(''id'', JNumber 1), (''role'', JString ''user'')]
           else if token = ''expired'' then Inl (JsError ''TokenExpiredError'' ''jwt expired'')
           else if token = ''tampered''
           then Inl (JsError ''JsonWebTokenError'' ''invalid signature'')
           else Inl (JsError ''JsonWebTokenError'' ''jwt malformed''))\<rparr>"

text \<open>An id is a non-empty string of decimal digits with a positive value.\<close>

definition mem_userIdSchema :: "string \<Rightarrow> zod_error + int" where
  "mem_userIdSchema s =
     (let v = foldl (\<lambda>a c. 10 * a + (of_char c - 48)) (0::nat) s in
      if s \<noteq> [] \<and> list_all (\<lambda>c. 48 \<le> (of_char c :: nat) \<and> (of_char c :: nat) \<le> 57) s \<and> 0 < v
      then Inr (int v) else Inl [''ID must be a valid number''])"

text \<open>
  Stand-ins for the two services: both look the id up in the table and throw
  \<open>User not found\<close>, the message the handlers test for, when no row has it.
\<close>

definition mem_getUserById :: "int \<Rightarrow> mem_db world \<Rightarrow> (js_error + user_view) \<times> mem_db world" where
  "mem_getUserById i w =
     (case filter (\<lambda>r. row_id r = i) (db w) of
        [] \<Rightarrow> (Inl (new_Error ''User not found''), w)
      | r # _ \<Rightarrow> (Inr (view_of_row r), w))"

definition mem_deleteUser :: "int \<Rightarrow> mem_db world \<Rightarrow> (js_error + user_view) \<times> mem_db world" where
  "mem_deleteUser i w =
     (case filter (\<lambda>r. row_id r = i) (db w) of
        [] \<Rightarrow> (Inl (new_Error ''User not found''), w)
      | r # _ \<Rightarrow> (Inr (view_of_row r), w\<lparr>db := filter (\<lambda>r. row_id r \<noteq> i) (db w)\<rparr>))"

text \<open>
  The body schema of the stand-in accepts every object as it is, so that a request can
  be followed from its body to the table.
\<close>

definition mem_collaborators :: "mem_db collaborators" where
  "mem_collaborators =
     \<lparr>userIdSchema = mem_userIdSchema,
      updateUserSchema = (\<lambda>body. Inr body),
      formatValidationError = concat,
      getUserById = mem_getUserById,
      deleteUser = mem_deleteUser\<rparr>"

text \<open>The same collaborators when the lookup fails upstream.\<close>

definition down_collaborators :: "mem_db collaborators" where
  "down_collaborators =
     mem_collaborators
       \<lparr>getUserById := (\<lambda>i w. (Inl (new_Error ''Connection terminated unexpectedly''), w))\<rparr>"

text \<open>Two rows, an ordinary user and an administrator, and the world holding them.\<close>

definition alice :: user_row where
  "alice =
     \<lparr>row_id = 1, row_name = ''Alice'', row_email = ''a@x.com'',
      row_password = ''$h$right'', row_role = ''user'',
      row_created_at = 100, row_updated_at = 100\<rparr>"

definition root :: user_row where
  "root =
     \<lparr>row_id = 2, row_name = ''Root'', row_email = ''root@x.com'',
      row_password = ''$h$toor'', row_role = ''admin'',
      row_created_at = 50, row_updated_at = 50\<rparr>"

definition w0 :: "mem_db world" where
  "w0 = \<lparr>logs = [], db = [alice, root], now = 1000\<rparr>"

definition dev_env :: process_env where
  "dev_env = \<lparr>NODE_ENV = Some ''development'', JWT_SECRET_var = None, JWT_EXPIRY_var = None\<rparr>"

definition prod_env :: process_env where
  "prod_env =
     \<lparr>NODE_ENV = Some ''production'', JWT_SECRET_var = Some ''s3cret'',
      JWT_EXPIRY_var = Some ''1d''\<rparr>"

section \<open>Properties of the cookie helpers\<close>

lemma get_prop_spread_cookies_getOptions:
  "get_prop (spread opts (cookies_getOptions env)) k =
     (if k \<in> {''httpOnly'', ''secure'', ''sameSite'', ''maxAge''}
      then get_prop (cookies_getOptions env) k else get_prop opts k)"
  by (simp add: get_prop_def spread_def cookies_getOptions_def AList.update_conv')

text \<open>
  Claim C8. In every environment the cookie options are \<open>httpOnly: true\<close>,
  \<open>sameSite: 'strict'\<close> and \<open>maxAge\<close> of fifteen minutes in milliseconds, and \<open>secure\<close> is
  true exactly when \<open>NODE_ENV\<close> is \<open>production\<close>. The options have these four keys only;
  with \<open>secure\<close> removed they are the same in any two environments, so \<open>secure\<close> is the
  only attribute that depends on the environment. \<open>getOptions\<close> takes no argument of the
  call: a cookie set through \<open>cookies.set\<close> carries these four values whatever the
  response, the name, the value and the options of the call are.
\<close>

theorem cookies_policy:
  "get_prop (cookies_getOptions env) ''httpOnly'' = Some (JBool True)
   \<and> get_prop (cookies_getOptions env) ''sameSite'' = Some (JString ''strict'')
   \<and> get_prop (cookies_getOptions env) ''maxAge'' = Some (JNumber 900000)
   \<and> get_prop (cookies_getOptions env) ''secure''
        = Some (JBool (NODE_ENV env = Some ''production''))
   \<and> map fst (cookies_getOptions env) = [''httpOnly'', ''secure'', ''sameSite'', ''maxAge'']
   \<and> AList.delete ''secure'' (cookies_getOptions env)
        = AList.delete ''secure'' (cookies_getOptions env')
   \<and> get_prop (call_options (last (cookies_set env res name val options))) ''httpOnly''
        = Some (JBool True)
   \<and> get_prop (call_options (last (cookies_set env res name val options))) ''sameSite''
        = Some (JString ''strict'')
   \<and> get_prop (call_options (last (cookies_set env res name val options))) ''maxAge''
        = Some (JNumber 900000)
   \<and> get_prop (call_options (last (cookies_set env res name val options))) ''secure''
        = Some (JBool (NODE_ENV env = Some ''production''))"
  by (simp add: cookies_set_def get_prop_spread_cookies_getOptions)
     (simp add: cookies_getOptions_def get_prop_def AList.delete_eq)

theorem cookies_policy_witness:
  "get_prop (cookies_getOptions prod_env) ''secure'' = Some (JBool True)
   \<and> get_prop (cookies_getOptions dev_env) ''secure'' = Some (JBool False)
   \<and> get_prop (call_options (last (cookies_set prod_env [] ''token'' ''abc'' None))) ''secure''
        = Some (JBool True)
   \<and> get_prop (call_options (last (cookies_set dev_env [] ''token'' ''abc'' None))) ''secure''
        = Some (JBool False)"
  using cookies_policy [of prod_env prod_env "[]" "''token''" "''abc''" None]
        cookies_policy [of dev_env dev_env "[]" "''token''" "''abc''" None]
  by (simp add: prod_env_def dev_env_def)

text \<open>
  Claim C9, as stated, fails: the options of the call are spread first and the fixed
  options over them, so a key of the caller that is not one of the four fixed ones stays.
  With \<open>{ path: '/api' }\<close> the attributes applied are not those of \<open>getOptions\<close>, and they
  differ from those applied with \<open>{}\<close>.
\<close>

theorem cookies_set_depends_on_options:
  "call_options
     (last (cookies_set dev_env [] ''token'' ''abc'' (Some [(''path'', JString ''/api'')])))
     \<noteq> cookies_getOptions dev_env
   \<and> call_options
     (last (cookies_set dev_env [] ''token'' ''abc'' (Some [(''path'', JString ''/api'')])))
     \<noteq> call_options (last (cookies_set dev_env [] ''token'' ''abc'' (Some [])))"
  by (simp add: cookies_set_def spread_def cookies_getOptions_def default_options_def
        dev_env_def)

text \<open>
  Claim C9, amended. For every options argument of \<open>cookies.set\<close> and \<open>cookies.clear\<close>,
  the attributes \<open>httpOnly\<close>, \<open>secure\<close>, \<open>sameSite\<close> and \<open>maxAge\<close> applied to the cookie are
  those of \<open>cookies.getOptions\<close>, whatever the caller supplied for them; every other
  attribute is applied as the caller gave it.
\<close>

theorem cookies_fixed_attributes_override:
  "get_prop (call_options (last (cookies_set env res name val options))) k =
     (if k \<in> {''httpOnly'', ''secure'', ''sameSite'', ''maxAge''}
      then get_prop (cookies_getOptions env) k
      else get_prop (default_options options) k)
   \<and> get_prop (call_options (last (cookies_clear env res name options))) k =
     (if k \<in> {''httpOnly'', ''secure'', ''sameSite'', ''maxAge''}
      then get_prop (cookies_getOptions env) k
      else get_prop (default_options options) k)"
  by (simp add: cookies_set_def cookies_clear_def get_prop_spread_cookies_getOptions)

theorem cookies_fixed_attributes_override_witness:
  "get_prop
     (call_options
        (last (cookies_set prod_env [] ''token'' ''abc''
                 (Some [(''secure'', JBool False), (''path'', JString ''/api'')]))))
     ''secure'' = Some (JBool True)
   \<and> get_prop
     (call_options
        (last (cookies_set prod_env [] ''token'' ''abc''
                 (Some [(''secure'', JBool False), (''path'', JString ''/api'')]))))
     ''path'' = Some (JString ''/api'')"
  using cookies_fixed_attributes_override
          [of prod_env "[]" "''token''" "''abc''"
              "Some [(''secure'', JBool False), (''path'', JString ''/api'')]" "''secure''"]
        cookies_fixed_attributes_override
          [of prod_env "[]" "''token''" "''abc''"
              "Some [(''secure'', JBool False), (''path'', JString ''/api'')]" "''path''"]
  by (simp add: default_options_def get_prop_def cookies_getOptions_def prod_env_def)

section \<open>Properties of the token codec\<close>

text \<open>
  Claim C4. Whenever the library's \<open>verify\<close> throws, for whatever cause (a signature that
  does not match, a malformed token, an expired token), \<open>jwtToken.verify\<close> throws the
  one error \<open>Failed to verify token\<close>, which does not carry the cause, and appends to the
  log one error entry that does.
\<close>

theorem jwtToken_verify_uniform_failure:
  assumes "jwt_verify lib token (JWT_SECRET env) = Inl cause"
  shows "jwtToken_verify lib env token lg =
           (Inl (new_Error ''Failed to verify token''),
            lg @ [LogError ''Failed to verify token'' (Some cause)])"
  using assms by (simp add: jwtToken_verify_def)

lemma toy_jwt_verify_simps:
  "jwt_verify toy_jwt ''expired'' s = Inl (JsError ''TokenExpiredError'' ''jwt expired'')"
  "jwt_verify toy_jwt ''tampered'' s = Inl (JsError ''JsonWebTokenError'' ''invalid signature'')"
  "jwt_verify toy_jwt ''garbage'' s = Inl (JsError ''JsonWebTokenError'' ''jwt malformed'')"
  by (simp_all add: toy_jwt_def)

theorem jwtToken_verify_uniform_failure_witness:
  "fst (jwtToken_verify toy_jwt prod_env ''expired'' [])
     = Inl (new_Error ''Failed to verify token'')
   \<and> fst (jwtToken_verify toy_jwt prod_env ''tampered'' [])
     = Inl (new_Error ''Failed to verify token'')
   \<and> fst (jwtToken_verify toy_jwt prod_env ''garbage'' [])
     = Inl (new_Error ''Failed to verify token'')
   \<and> snd (jwtToken_verify toy_jwt prod_env ''expired'' [])
     = [LogError ''Failed to verify token''
          (Some (JsError ''TokenExpiredError'' ''jwt expired''))]
   \<and> snd (jwtToken_verify toy_jwt prod_env ''tampered'' [])
     = [LogError ''Failed to verify token''
          (Some (JsError ''JsonWebTokenError'' ''invalid signature''))]
   \<and> snd (jwtToken_verify toy_jwt prod_env ''garbage'' [])
     = [LogError ''Failed to verify token''
          (Some (JsError ''JsonWebTokenError'' ''jwt malformed''))]"
  using jwtToken_verify_uniform_failure [OF toy_jwt_verify_simps(1), of prod_env "[]"]
        jwtToken_verify_uniform_failure [OF toy_jwt_verify_simps(2), of prod_env "[]"]
        jwtToken_verify_uniform_failure [OF toy_jwt_verify_simps(3), of prod_env "[]"]
  by simp

section \<open>Properties of the credential verifier\<close>

text \<open>Whatever makes \<open>authenticateUser\<close> or \<open>createUser\<close> fail, the error thrown is the same.\<close>

lemma authenticateUser_throws_generic:
  "authenticateUser Q B inp w = (Inl e, w') \<Longrightarrow> e = new_Error ''Error authenticating user''"
  by (auto simp: authenticateUser_def split: prod.splits sum.splits)

lemma createUser_throws_generic:
  "createUser Q B inp w = (Inl e, w') \<Longrightarrow> e = new_Error ''Error creating user''"
  by (auto simp: createUser_def split: prod.splits sum.splits)

text \<open>
  Claim C1 asks that a missing record and a wrong secret fail in two ways the caller can
  tell apart. The code throws \<open>User not found\<close> and \<open>Invalid password\<close> inside its \<open>try\<close>
  block, and its own \<open>catch\<close> replaces both by \<open>Error authenticating user\<close>. On the table
  with Alice (\<open>a@x.com\<close>, password \<open>right\<close>): an unknown email and a wrong password give
  the same thrown error, and only the log entries differ.
\<close>

theorem authenticateUser_failures_indistinguishable:
  "authenticateUser mem_queries toy_bcrypt
      \<lparr>si_email = ''nobody@x.com'', si_password = ''right''\<rparr> w0 =
     (Inl (new_Error ''Error authenticating user''),
      log_error ''Error authenticating user: Error: User not found'' None w0)
   \<and> authenticateUser mem_queries toy_bcrypt
      \<lparr>si_email = ''a@x.com'', si_password = ''wrong''\<rparr> w0 =
     (Inl (new_Error ''Error authenticating user''),
      log_error ''Error authenticating user: Error: Invalid password'' None w0)"
  by (simp add: authenticateUser_def authenticateUser_try_def comparePassword_def
        mem_queries_def toy_bcrypt_def w0_def alice_def root_def new_Error_def
        error_to_string_def log_error_def)

text \<open>
  Claim C5 asks that a taken identifier fails in a way the caller can recognise. The
  code throws \<open>User already exists\<close> inside its \<open>try\<close> block, before any insert, and its
  own \<open>catch\<close> replaces it by \<open>Error creating user\<close>. On the table with Alice: signing up
  \<open>a@x.com\<close> again throws \<open>Error creating user\<close> and leaves the table as it was, and a
  sign-up of a new email whose hashing fails throws the very same error.
\<close>

theorem createUser_duplicate_indistinguishable:
  "createUser mem_queries toy_bcrypt
      \<lparr>su_name = ''Alice'', su_email = ''a@x.com'', su_password = ''pw'', su_role = None\<rparr> w0 =
     (Inl (new_Error ''Error creating user''),
      log_error ''Error creating user'' (Some (new_Error ''User already exists'')) w0)
   \<and> fst (createUser mem_queries failing_bcrypt
      \<lparr>su_name = ''Bob'', su_email = ''b@x.com'', su_password = ''pw'', su_role = None\<rparr> w0) =
     Inl (new_Error ''Error creating user'')"
  by (simp add: createUser_def createUser_try_def hashPassword_def
        mem_queries_def toy_bcrypt_def failing_bcrypt_def w0_def alice_def root_def
        new_Error_def log_error_def)

section \<open>Properties of the users controller\<close>

lemma mem_userIdSchema_1 [simp]: "mem_userIdSchema ''1'' = Inr 1"
  by (simp add: mem_userIdSchema_def)

lemma mem_userIdSchema_2 [simp]: "mem_userIdSchema ''2'' = Inr 2"
  by (simp add: mem_userIdSchema_def)

lemmas mem_run_defs =
  mem_collaborators_def mem_queries_def mem_getUserById_def mem_deleteUser_def mem_apply_def
  updateUserById_def updateUserById_try_def updateUserById_catch_def
  updateUserById_after_ownership_def updateUser_def updateUser_try_def updateUser_write_def
  get_prop_def delete_prop_def spread_def log_info_def log_error_def view_of_row_def
  new_Error_def w0_def alice_def root_def Let_def AList.delete_eq

text \<open>
  Claim C10. When the id is valid and the lookup throws an error whose message is not
  \<open>User not found\<close>, \<open>fetchUserById\<close> logs the error and returns: no response is sent.
\<close>

theorem fetchUserById_other_error_no_response:
  assumes "userIdSchema S (req_params_id req) = Inr i"
    and "getUserById S i (log_info (''Getting user by id: '' @ req_params_id req) w) = (Inl e, w')"
    and "err_message e \<noteq> ''User not found''"
  shows "fetchUserById S req w =
           (No_response, log_error (''Error fetching user by id: '' @ err_message e) None w')"
  using assms by (simp add: fetchUserById_def fetchUserById_try_def Let_def)

theorem fetchUserById_other_error_no_response_witness:
  "fetchUserById down_collaborators
      \<lparr>req_params_id = ''1'', req_body = [], req_user = None\<rparr> w0 =
     (No_response,
      log_error ''Error fetching user by id: Connection terminated unexpectedly'' None
        (log_info ''Getting user by id: 1'' w0))"
  using fetchUserById_other_error_no_response
          [of down_collaborators "\<lparr>req_params_id = ''1'', req_body = [], req_user = None\<rparr>"
              1 w0 "new_Error ''Connection terminated unexpectedly''"
              "log_info ''Getting user by id: 1'' w0"]
  by (simp add: down_collaborators_def mem_collaborators_def new_Error_def)

text \<open>
  Claim C3. When the requester has the role \<open>admin\<close> and the id to delete is the
  requester's own, \<open>deleteUserById\<close> answers 403 (\<open>You cannot delete your own account\<close>);
  the only effect is the first log line, \<open>deleteUser\<close> is not called and the database
  is as before.
\<close>

theorem deleteUserById_admin_self_forbidden:
  assumes "userIdSchema S (req_params_id req) = Inr i"
    and "req_user req = Some user"
    and "get_prop user ''role'' = Some (JString ''admin'')"
    and "get_prop user ''id'' = Some (JNumber i)"
  shows "deleteUserById S req w =
           (Responded 403
              (Body_error_message ''Operation denied'' ''You cannot delete your own account''),
            log_info (''Deleting user: '' @ req_params_id req) w)
         \<and> db (snd (deleteUserById S req w)) = db w"
  using assms by (simp add: deleteUserById_def deleteUserById_try_def Let_def log_info_def)

theorem deleteUserById_admin_self_forbidden_witness:
  "deleteUserById mem_collaborators
      \<lparr>req_params_id = ''2'', req_body = [],
       req_user = Some [(''id'', JNumber 2), (''role'', JString ''admin'')]\<rparr> w0 =
     (Responded 403
        (Body_error_message ''Operation denied'' ''You cannot delete your own account''),
      log_info ''Deleting user: 2'' w0)
   \<and> db (snd (deleteUserById mem_collaborators
      \<lparr>req_params_id = ''2'', req_body = [],
       req_user = Some [(''id'', JNumber 2), (''role'', JString ''admin'')]\<rparr> w0))
     = [alice, root]"
  using deleteUserById_admin_self_forbidden
          [of mem_collaborators
              "\<lparr>req_params_id = ''2'', req_body = [],
                req_user = Some [(''id'', JNumber 2), (''role'', JString ''admin'')]\<rparr>"
              2 "[(''id'', JNumber 2), (''role'', JString ''admin'')]" w0]
  by (simp add: mem_collaborators_def get_prop_def w0_def log_info_def)

text \<open>
  What \<open>updateUserById\<close> does for a requester who is not an administrator, once both
  validations have passed.
\<close>

lemma non_admin_update_cases:
  assumes "userIdSchema S (req_params_id req) = Inr i"
    and "updateUserSchema S (req_body req) = Inr updates"
    and "req_user req = Some user"
    and "get_prop user ''role'' \<noteq> Some (JString ''admin'')"
  shows "updateUserById S Q req w =
           (if get_prop user ''id'' \<noteq> Some (JNumber i)
            then (Responded 403
                    (Body_error_message ''Access denied''
                       ''You can only update your own information''),
                  log_info (''Updating user: '' @ req_params_id req) w)
            else updateUserById_catch
                   (updateUserById_after_ownership S Q i updates user
                      (log_info (''Updating user: '' @ req_params_id req) w)))"
  using assms
  by (simp add: updateUserById_def updateUserById_try_def updateUserById_catch_def Let_def)

lemma after_ownership_not_ownership_rejection:
  "fst (updateUserById_catch (updateUserById_after_ownership S Q i updates user w1)) \<noteq>
     Responded 403
       (Body_error_message ''Access denied'' ''You can only update your own information'')"
  by (auto simp: updateUserById_catch_def updateUserById_after_ownership_def Let_def
           split: prod.splits sum.splits)

text \<open>
  Claim C7. For a requester whose role is not \<open>admin\<close> (the role \<open>user\<close> among them):
  when the id in the path is the requester's own, the request passes the ownership check,
  that is, the handler goes on with the code after it and the answer is not the ownership
  rejection; when the id differs, the answer is 403
  (\<open>You can only update your own information\<close>) and nothing but the first log line
  happens.
\<close>

theorem updateUserById_ownership_check:
  assumes "userIdSchema S (req_params_id req) = Inr i"
    and "updateUserSchema S (req_body req) = Inr updates"
    and "req_user req = Some user"
    and "get_prop user ''role'' \<noteq> Some (JString ''admin'')"
  shows "(get_prop user ''id'' = Some (JNumber i) \<longrightarrow>
            updateUserById S Q req w =
              updateUserById_catch
                (updateUserById_after_ownership S Q i updates user
                   (log_info (''Updating user: '' @ req_params_id req) w))
            \<and> fst (updateUserById S Q req w) \<noteq>
                Responded 403
                  (Body_error_message ''Access denied''
                     ''You can only update your own information''))
         \<and> (get_prop user ''id'' \<noteq> Some (JNumber i) \<longrightarrow>
            updateUserById S Q req w =
              (Responded 403
                 (Body_error_message ''Access denied''
                    ''You can only update your own information''),
               log_info (''Updating user: '' @ req_params_id req) w))"
  using non_admin_update_cases [OF assms, of Q w]
        after_ownership_not_ownership_rejection
          [of S Q i updates user "log_info (''Updating user: '' @ req_params_id req) w"]
  by simp


theorem updateUserById_ownership_check_witness:
  "updateUserById mem_collaborators mem_queries
      \<lparr>req_params_id = ''1'', req_body = [(''name'', JString ''Al'')],
       req_user = Some [(''id'', JNumber 1), (''role'', JString ''user'')]\<rparr> w0 =
     updateUserById_catch
       (updateUserById_after_ownership mem_collaborators mem_queries 1
          [(''name'', JString ''Al'')] [(''id'', JNumber 1), (''role'', JString ''user'')]
          (log_info ''Updating user: 1'' w0))
   \<and> fst (updateUserById mem_collaborators mem_queries
      \<lparr>req_params_id = ''1'', req_body = [(''name'', JString ''Al'')],
       req_user = Some [(''id'', JNumber 1), (''role'', JString ''user'')]\<rparr> w0) \<noteq>
       Responded 403
         (Body_error_message ''Access denied'' ''You can only update your own information'')
   \<and> updateUserById mem_collaborators mem_queries
      \<lparr>req_params_id = ''2'', req_body = [(''name'', JString ''Al'')],
       req_user = Some [(''id'', JNumber 1), (''role'', JString ''user'')]\<rparr> w0 =
     (Responded 403
        (Body_error_message ''Access denied'' ''You can only update your own information''),
      log_info ''Updating user: 2'' w0)"
proof -
  let ?user = "[(''id'', JNumber 1), (''role'', JString ''user'')]"
  let ?body = "[(''name'', JString ''Al'')]"
  let ?own = "\<lparr>req_params_id = ''1'', req_body = ?body, req_user = Some ?user\<rparr>"
  let ?other = "\<lparr>req_params_id = ''2'', req_body = ?body, req_user = Some ?user\<rparr>"
  have role: "get_prop ?user ''role'' \<noteq> Some (JString ''admin'')"
    by (simp add: get_prop_def)
  have id1: "get_prop ?user ''id'' = Some (JNumber 1)"
    and id2: "get_prop ?user ''id'' \<noteq> Some (JNumber 2)"
    by (simp_all add: get_prop_def)
  have own: "userIdSchema mem_collaborators (req_params_id ?own) = Inr 1"
    "updateUserSchema mem_collaborators (req_body ?own) = Inr ?body"
    "req_user ?own = Some ?user"
    by (simp_all add: mem_collaborators_def)
  have other: "userIdSchema mem_collaborators (req_params_id ?other) = Inr 2"
    "updateUserSchema mem_collaborators (req_body ?other) = Inr ?body"
    "req_user ?other = Some ?user"
    by (simp_all add: mem_collaborators_def)
  have m1: "''Updating user: '' @ req_params_id ?own = ''Updating user: 1''"
    and m2: "''Updating user: '' @ req_params_id ?other = ''Updating user: 2''"
    by simp_all
  from updateUserById_ownership_check [OF own role, of mem_queries w0, unfolded m1] id1
  have A: "updateUserById mem_collaborators mem_queries ?own w0 =
             updateUserById_catch
               (updateUserById_after_ownership mem_collaborators mem_queries 1 ?body ?user
                  (log_info ''Updating user: 1'' w0))
           \<and> fst (updateUserById mem_collaborators mem_queries ?own w0) \<noteq>
               Responded 403
                 (Body_error_message ''Access denied''
                    ''You can only update your own information'')"
    by blast
  from updateUserById_ownership_check [OF other role, of mem_queries w0, unfolded m2] id2
  have B: "updateUserById mem_collaborators mem_queries ?other w0 =
             (Responded 403
                (Body_error_message ''Access denied''
                   ''You can only update your own information''),
              log_info ''Updating user: 2'' w0)"
    by blast
  from A B show ?thesis by blast
qed

text \<open>
  Claim C2, as stated, fails. Alice, role \<open>user\<close>, updates her own id with
  \<open>{ name: 'Al', role: 'admin' }\<close>: the answer is 403
  (\<open>Only administrators can change user roles\<close>) and the table is unchanged; the name is
  not updated either.
\<close>

theorem updateUserById_role_not_stripped:
  "updateUserById mem_collaborators mem_queries
      \<lparr>req_params_id = ''1'',
       req_body = [(''name'', JString ''Al''), (''role'', JString ''admin'')],
       req_user = Some [(''id'', JNumber 1), (''role'', JString ''user'')]\<rparr> w0 =
     (Responded 403
        (Body_error_message ''Access denied'' ''Only administrators can change user roles''),
      \<lparr>logs = [LogInfo ''Updating user: 1''], db = [alice, root], now = 1000\<rparr>)"
  by (simp add: mem_collaborators_def updateUserById_def updateUserById_try_def
        updateUserById_catch_def updateUserById_after_ownership_def get_prop_def
        log_info_def w0_def Let_def)

text \<open>
  Claim C2, amended. For a requester who is not an administrator and updates their own
  id: when the validated payload has a truthy \<open>role\<close> (any non-empty string), the whole
  request is rejected with 403 and nothing is updated; otherwise (no \<open>role\<close>, or a falsy
  one) the key \<open>role\<close> is removed and \<open>updateUser\<close> is called with the rest, its result
  deciding the response.
\<close>

theorem updateUserById_non_admin_role:
  assumes "userIdSchema S (req_params_id req) = Inr i"
    and "updateUserSchema S (req_body req) = Inr updates"
    and "req_user req = Some user"
    and "get_prop user ''role'' \<noteq> Some (JString ''admin'')"
    and "get_prop user ''id'' = Some (JNumber i)"
  shows "(truthy (get_prop updates ''role'') \<longrightarrow>
            updateUserById S Q req w =
              (Responded 403
                 (Body_error_message ''Access denied''
                    ''Only administrators can change user roles''),
               log_info (''Updating user: '' @ req_params_id req) w))
         \<and> (\<not> truthy (get_prop updates ''role'') \<longrightarrow>
            updateUserById S Q req w =
              updateUserById_catch
                (case updateUser S Q i (delete_prop ''role'' updates)
                        (log_info (''Updating user: '' @ req_params_id req) w) of
                   (Inl e, w2) \<Rightarrow> (Inl e, w2)
                 | (Inr updatedUser, w2) \<Rightarrow>
                     (Inr (Responded 200
                             (Body_message_user ''User updated successfully'' updatedUser)),
                      log_info (''User '' @ view_email updatedUser @ '' updated successfully'')
                        w2)))"
  using non_admin_update_cases [OF assms(1-4), of Q w] assms(4,5)
  by (simp add: updateUserById_after_ownership_def updateUserById_catch_def Let_def)



theorem updateUserById_non_admin_role_witness:
  "updateUserById mem_collaborators mem_queries
      \<lparr>req_params_id = ''1'',
       req_body = [(''name'', JString ''Al''), (''role'', JString ''admin'')],
       req_user = Some [(''id'', JNumber 1), (''role'', JString ''user'')]\<rparr> w0 =
     (Responded 403
        (Body_error_message ''Access denied'' ''Only administrators can change user roles''),
      log_info ''Updating user: 1'' w0)
   \<and> fst (updateUserById mem_collaborators mem_queries
      \<lparr>req_params_id = ''1'',
       req_body = [(''name'', JString ''Al''), (''role'', JString [])],
       req_user = Some [(''id'', JNumber 1), (''role'', JString ''user'')]\<rparr> w0) =
     Responded 200
       (Body_message_user ''User updated successfully''
          \<lparr>view_id = 1, view_email = ''a@x.com'', view_name = ''Al'', view_role = ''user'',
           view_created_at = 100, view_updated_at = 1000\<rparr>)"
  using updateUserById_non_admin_role
          [of mem_collaborators
              "\<lparr>req_params_id = ''1'',
                req_body = [(''name'', JString ''Al''), (''role'', JString ''admin'')],
                req_user = Some [(''id'', JNumber 1), (''role'', JString ''user'')]\<rparr>"
              1 "[(''name'', JString ''Al''), (''role'', JString ''admin'')]"
              "[(''id'', JNumber 1), (''role'', JString ''user'')]" mem_queries w0]
        updateUserById_non_admin_role
          [of mem_collaborators
              "\<lparr>req_params_id = ''1'',
                req_body = [(''name'', JString ''Al''), (''role'', JString [])],
                req_user = Some [(''id'', JNumber 1), (''role'', JString ''user'')]\<rparr>"
              1 "[(''name'', JString ''Al''), (''role'', JString [])]"
              "[(''id'', JNumber 1), (''role'', JString ''user'')]" mem_queries w0]
  by (simp add: mem_run_defs)


end
